theory Spec2Isabelle
  imports Main "HOL-Library.Sublist"
begin

section \<open>The file system seen by the detector\<close>

text \<open>
  The code of \<^verbatim>\<open>core/detectors.py\<close> and \<^verbatim>\<open>core/utils.py\<close> reads the file
  system through \<^verbatim>\<open>pathlib.Path\<close>: \<^verbatim>\<open>is_dir\<close>, \<^verbatim>\<open>is_file\<close>, \<^verbatim>\<open>joinpath\<close>,
  \<^verbatim>\<open>name\<close>, \<^verbatim>\<open>read_text\<close> and \<^verbatim>\<open>rglob\<close>. A directory is the list of its
  entries in the order the operating system lists them; a regular file carries the text
  that \<^verbatim>\<open>read_text(encoding="utf-8", errors="ignore")\<close> returns for it, or \<open>None\<close>
  when opening or reading it fails (for instance a file whose permission bits deny
  reading: \<^verbatim>\<open>is_file\<close> only needs \<^verbatim>\<open>stat\<close> and still answers \<open>True\<close>).

  Text is a \<open>string\<close>; \<^verbatim>\<open>str.lower\<close> is modelled on the ASCII letters, every other
  character is left as it is. Names are compared case-sensitively, as on a POSIX
  file system. Symbolic links are not modelled.
\<close>

datatype fsnode =
    File "string option"
  | Dir "(string \<times> fsnode) list"

text \<open>
  A \<^verbatim>\<open>Path\<close> is its last component (\<^verbatim>\<open>Path.name\<close>) together with what the file
  system holds at that place, if anything.
\<close>

record path =
  name :: string
  target :: "fsnode option"

datatype exn = ValueError | OSError

definition is_dir :: "path \<Rightarrow> bool" where
  "is_dir p = (case target p of Some (Dir es) \<Rightarrow> True | _ \<Rightarrow> False)"

definition is_file :: "path \<Rightarrow> bool" where
  "is_file p = (case target p of Some (File c) \<Rightarrow> True | _ \<Rightarrow> False)"

definition joinpath :: "path \<Rightarrow> string \<Rightarrow> path" where
  "joinpath p filename =
     \<lparr>name = filename,
      target = (case target p of Some (Dir es) \<Rightarrow> map_of es filename | _ \<Rightarrow> None)\<rparr>"

text \<open>
  \<^verbatim>\<open>Path.read_text\<close>: the text of a readable regular file, an \<^verbatim>\<open>OSError\<close>
  otherwise (missing file, directory, read failure). Undecodable bytes never raise,
  because of \<^verbatim>\<open>errors="ignore"\<close>.
\<close>

definition read_text :: "path \<Rightarrow> exn + string" where
  "read_text p = (case target p of Some (File (Some txt)) \<Rightarrow> Inr txt | _ \<Rightarrow> Inl OSError)"

subsection \<open>Strings\<close>

definition lower_chr :: "char \<Rightarrow> char" where
  "lower_chr c =
     (if (65::nat) \<le> of_char c \<and> of_char c \<le> (90::nat)
      then char_of (of_char c + (32::nat)) else c)"

definition lower :: "string \<Rightarrow> string" where
  "lower s = map lower_chr s"

text \<open>\<^verbatim>\<open>s.replace(a, b)\<close> for one-character \<open>a\<close> and \<open>b\<close>.\<close>

definition replace :: "char \<Rightarrow> char \<Rightarrow> string \<Rightarrow> string" where
  "replace a b s = map (\<lambda>c. if c = a then b else c) s"

text \<open>The double quote, which the source writes inside single-quoted literals.\<close>

definition dquote :: char where
  "dquote = CHR 0x22"

subsection \<open>Glob patterns\<close>

text \<open>
  One path component of a glob pattern, as \<^verbatim>\<open>fnmatch\<close> reads it: \<^verbatim>\<open>*\<close> is any
  run of characters, \<^verbatim>\<open>?\<close> one character, \<^verbatim>\<open>[seq]\<close> one character of \<open>seq\<close>,
  \<^verbatim>\<open>[!seq]\<close> one character not in \<open>seq\<close>, where \<open>seq\<close> may hold ranges
  \<^verbatim>\<open>a-z\<close>. A \<^verbatim>\<open>[\<close> that is never closed is an ordinary character.
\<close>

datatype citem = Single char | Range char char

datatype tok = Lit char | Star | Any | Class bool "citem list"

fun citems :: "string \<Rightarrow> citem list" where
  "citems (a # m # b # cs) =
     (if m = CHR ''-'' then Range a b # citems cs else Single a # citems (m # b # cs))"
| "citems (a # cs) = Single a # citems cs"
| "citems [] = []"

text \<open>
  \<open>class_end cs\<close> splits the text after an opening bracket (and after the optional
  \<^verbatim>\<open>!\<close>) at the closing bracket; a \<^verbatim>\<open>]\<close> in first position belongs to the set.
\<close>

fun until_bracket :: "string \<Rightarrow> (string \<times> string) option" where
  "until_bracket [] = None"
| "until_bracket (c # cs) =
     (if c = CHR '']'' then Some ([], cs)
      else (case until_bracket cs of None \<Rightarrow> None | Some (s, r) \<Rightarrow> Some (c # s, r)))"

definition class_end :: "string \<Rightarrow> (string \<times> string) option" where
  "class_end cs =
     (case cs of
        c # cs' \<Rightarrow>
          (if c = CHR '']''
           then (case until_bracket cs' of None \<Rightarrow> None | Some (s, r) \<Rightarrow> Some (c # s, r))
           else until_bracket cs)
      | [] \<Rightarrow> None)"

function translate :: "string \<Rightarrow> tok list" where
  "translate [] = []"
| "translate (c # cs) =
     (if c = CHR ''*'' then Star # translate cs
      else if c = CHR ''?'' then Any # translate cs
      else if c = CHR ''['' then
        (case cs of
           n # cs' \<Rightarrow>
             (if n = CHR ''!''
              then (case class_end cs' of
                      None \<Rightarrow> Lit c # translate cs
                    | Some (s, r) \<Rightarrow> Class True (citems s) # translate r)
              else (case class_end cs of
                      None \<Rightarrow> Lit c # translate cs
                    | Some (s, r) \<Rightarrow> Class False (citems s) # translate r))
         | [] \<Rightarrow> [Lit c])
      else Lit c # translate cs)"
  by pat_completeness auto
termination
proof -
  have ub: "until_bracket cs = Some (s, r) \<Longrightarrow> length r < Suc (length cs)" for cs s r
    by (induction cs arbitrary: s r) (auto split: if_splits option.splits)
  have ce: "class_end cs = Some (s, r) \<Longrightarrow> length r < Suc (length cs)" for cs s r
    by (auto simp: class_end_def split: list.splits if_splits option.splits dest: ub)
  show ?thesis
    by (relation "measure length") (auto dest!: ce)
qed

fun in_item :: "char \<Rightarrow> citem \<Rightarrow> bool" where
  "in_item c (Single a) = (c = a)"
| "in_item c (Range a b) = ((of_char a :: nat) \<le> of_char c \<and> (of_char c :: nat) \<le> of_char b)"

fun tok_ok :: "tok \<Rightarrow> char \<Rightarrow> bool" where
  "tok_ok (Lit a) c = (c = a)"
| "tok_ok Any c = True"
| "tok_ok (Class neg items) c = (list_ex (in_item c) items \<noteq> neg)"
| "tok_ok Star c = True"

fun gmatch :: "tok list \<Rightarrow> string \<Rightarrow> bool" where
  "gmatch [] s = (s = [])"
| "gmatch (Star # ts) [] = gmatch ts []"
| "gmatch (Star # ts) (c # cs) = (gmatch ts (c # cs) \<or> gmatch (Star # ts) cs)"
| "gmatch (t # ts) [] = False"
| "gmatch (t # ts) (c # cs) = (tok_ok t c \<and> gmatch ts cs)"

text \<open>
  A pattern that ends with the path separator selects directories only (Python 3.11 and
  later; the source needs 3.10 for its \<^verbatim>\<open>match\<close> statement); the patterns of the
  source have a single component.
\<close>

definition dir_only :: "string \<Rightarrow> bool" where
  "dir_only pattern = (pattern \<noteq> [] \<and> last pattern = CHR ''/'')"

definition component :: "string \<Rightarrow> string" where
  "component pattern = (if dir_only pattern then butlast pattern else pattern)"

fun selects :: "string \<Rightarrow> string \<times> fsnode \<Rightarrow> bool" where
  "selects pattern (n, File c) = (\<not> dir_only pattern \<and> gmatch (translate (component pattern)) n)"
| "selects pattern (n, Dir es) = gmatch (translate (component pattern)) n"

text \<open>
  \<^verbatim>\<open>Path.rglob(pattern)\<close>: the entries below a directory, at any depth, whose name
  matches; the directory's own matching entries first, then those of each subdirectory.
  Every result is a path, with the names of the directories that lead to it.
\<close>

fun rglob_node :: "string \<Rightarrow> string list \<Rightarrow> fsnode \<Rightarrow> (string list \<times> path) list"
  and rglob_entries :: "string \<Rightarrow> string list \<Rightarrow> (string \<times> fsnode) list \<Rightarrow> (string list \<times> path) list"
where
  "rglob_node pattern pre (File c) = []"
| "rglob_node pattern pre (Dir es) =
     map (\<lambda>(n, x). (pre, \<lparr>name = n, target = Some x\<rparr>)) (filter (selects pattern) es)
     @ rglob_entries pattern pre es"
| "rglob_entries pattern pre [] = []"
| "rglob_entries pattern pre ((n, x) # es) =
     rglob_node pattern (pre @ [n]) x @ rglob_entries pattern pre es"

definition rglob :: "path \<Rightarrow> string \<Rightarrow> (string list \<times> path) list" where
  "rglob p pattern = (case target p of Some x \<Rightarrow> rglob_node pattern [] x | None \<Rightarrow> [])"

section \<open>Evidence predicates (\<^verbatim>\<open>core/detectors.py\<close>)\<close>

text \<open>
  The source's private names start with an underscore; the definitions below carry the
  same names without it.
\<close>

definition has_file :: "path \<Rightarrow> string \<Rightarrow> bool" where
  "has_file repo pattern = (rglob repo pattern \<noteq> [])"

definition file_exists :: "path \<Rightarrow> string \<Rightarrow> bool" where
  "file_exists repo filename = is_file (joinpath repo filename)"

definition file_contains :: "path \<Rightarrow> string \<Rightarrow> string \<Rightarrow> bool" where
  "file_contains repo filename substring =
     (let p = joinpath repo filename in
      if \<not> is_file p then False
      else (case read_text p of
              Inr content \<Rightarrow> sublist (lower substring) (lower content)
            | Inl e \<Rightarrow> False))"

definition pyproject_has_tool :: "path \<Rightarrow> string \<Rightarrow> bool" where
  "pyproject_has_tool repo tool_name =
     (file_exists repo ''pyproject.toml''
      \<and> file_contains repo ''pyproject.toml'' (''[tool.'' @ tool_name @ '']''))"

definition detect_docker :: "path \<Rightarrow> bool" where
  "detect_docker repo = (has_file repo ''Dockerfile'' \<or> has_file repo ''dockerfile'')"

definition detect_node_npm :: "path \<Rightarrow> bool" where
  "detect_node_npm repo =
     (file_exists repo ''package.json''
      \<and> \<not> (file_exists repo ''yarn.lock''
           \<or> file_exists repo ''pnpm-lock.yaml''
           \<or> file_exists repo ''bun.lockb''))"

definition detect_node_yarn :: "path \<Rightarrow> bool" where
  "detect_node_yarn repo = file_exists repo ''yarn.lock''"

definition detect_node_pnpm :: "path \<Rightarrow> bool" where
  "detect_node_pnpm repo =
     (file_exists repo ''pnpm-lock.yaml'' \<or> file_exists repo ''pnpm-workspace.yaml'')"

definition detect_node_bun :: "path \<Rightarrow> bool" where
  "detect_node_bun repo = file_exists repo ''bun.lockb''"

definition detect_deno :: "path \<Rightarrow> bool" where
  "detect_deno repo = (has_file repo ''deno.json*'' \<or> has_file repo ''import_map.json'')"

definition detect_python_uv :: "path \<Rightarrow> bool" where
  "detect_python_uv repo = pyproject_has_tool repo ''uv''"

definition detect_python_pdm :: "path \<Rightarrow> bool" where
  "detect_python_pdm repo = pyproject_has_tool repo ''pdm''"

definition detect_python_poetry :: "path \<Rightarrow> bool" where
  "detect_python_poetry repo = pyproject_has_tool repo ''poetry''"

definition detect_python_pipenv :: "path \<Rightarrow> bool" where
  "detect_python_pipenv repo = (file_exists repo ''Pipfile'' \<or> file_exists repo ''Pipfile.lock'')"

definition detect_python_pip :: "path \<Rightarrow> bool" where
  "detect_python_pip repo =
     (has_file repo ''requirements*.txt''
      \<or> file_exists repo ''setup.py''
      \<or> file_exists repo ''setup.cfg'')"

definition detect_go :: "path \<Rightarrow> bool" where
  "detect_go repo = file_exists repo ''go.mod''"

definition detect_rust :: "path \<Rightarrow> bool" where
  "detect_rust repo = file_exists repo ''Cargo.toml''"

definition detect_java_maven :: "path \<Rightarrow> bool" where
  "detect_java_maven repo = file_exists repo ''pom.xml''"

definition detect_java_gradle :: "path \<Rightarrow> bool" where
  "detect_java_gradle repo =
     (has_file repo ''*.gradle''
      \<or> has_file repo ''*.gradle.kts''
      \<or> file_exists repo ''gradlew''
      \<or> file_exists repo ''settings.gradle.kts'')"

definition detect_dotnet :: "path \<Rightarrow> bool" where
  "detect_dotnet repo = (has_file repo ''*.csproj'' \<or> has_file repo ''*.fsproj'')"

definition detect_php_composer :: "path \<Rightarrow> bool" where
  "detect_php_composer repo = file_exists repo ''composer.json''"

definition detect_elixir :: "path \<Rightarrow> bool" where
  "detect_elixir repo = file_exists repo ''mix.exs''"

definition detect_ruby :: "path \<Rightarrow> bool" where
  "detect_ruby repo = file_exists repo ''Gemfile''"

definition detect_flutter :: "path \<Rightarrow> bool" where
  "detect_flutter repo = file_exists repo ''pubspec.yaml''"

type_synonym stack_info = "string \<times> string \<times> (path \<Rightarrow> bool)"

definition STACK_PRIORITY :: "stack_info list" where
  "STACK_PRIORITY =
     [(''docker'', ''docker.yml.j2'', detect_docker),
      (''node-bun'', ''node-bun.yml.j2'', detect_node_bun),
      (''node-pnpm'', ''node-pnpm.yml.j2'', detect_node_pnpm),
      (''node-yarn'', ''node-yarn.yml.j2'', detect_node_yarn),
      (''node-npm'', ''node-npm.yml.j2'', detect_node_npm),
      (''deno'', ''deno.yml.j2'', detect_deno),
      (''python-uv'', ''python-uv.yml.j2'', detect_python_uv),
      (''python-pdm'', ''python-pdm.yml.j2'', detect_python_pdm),
      (''python-poetry'', ''python-poetry.yml.j2'', detect_python_poetry),
      (''python-pipenv'', ''python-pipenv.yml.j2'', detect_python_pipenv),
      (''python-pip'', ''python-pip.yml.j2'', detect_python_pip),
      (''elixir'', ''elixir.yml.j2'', detect_elixir),
      (''ruby'', ''ruby.yml.j2'', detect_ruby),
      (''flutter'', ''flutter.yml.j2'', detect_flutter),
      (''java-maven'', ''java-maven.yml.j2'', detect_java_maven),
      (''java-gradle'', ''java-gradle.yml.j2'', detect_java_gradle),
      (''dotnet'', ''dotnet.yml.j2'', detect_dotnet),
      (''go'', ''go.yml.j2'', detect_go),
      (''rust'', ''rust.yml.j2'', detect_rust),
      (''php-composer'', ''php-composer.yml.j2'', detect_php_composer)]"

section \<open>Context builder and resolver (\<^verbatim>\<open>core/detectors.py\<close>)\<close>

text \<open>
  The context dictionary of the source, one field for each of its keys; \<open>None\<close> is
  Python's \<^verbatim>\<open>None\<close>.
\<close>

record ctx =
  project_name :: string
  has_docker :: bool
  docker_tag :: string
  install_cmd :: "string option"
  build_cmd :: "string option"
  test_cmd :: "string option"
  artifact_path :: "string option"

record resolution =
  stack :: string
  template :: string
  "context" :: ctx

text \<open>
  \<^verbatim>\<open>_build_context\<close>. The branch of \<^verbatim>\<open>node-npm\<close> reads \<^verbatim>\<open>package.json\<close> with
  no handler around the read, so its \<^verbatim>\<open>OSError\<close> leaves the function; the search
  for \<^verbatim>\<open>"build"\<close> and \<^verbatim>\<open>"test"\<close> is case-sensitive and on the text as read.
\<close>

definition build_context :: "path \<Rightarrow> string \<Rightarrow> exn + ctx" where
  "build_context repo stk =
     (let ctx =
        \<lparr>project_name = replace CHR ''_'' CHR ''-'' (replace CHR '' '' CHR ''-'' (lower (name repo))),
         has_docker = detect_docker repo,
         docker_tag = lower (name repo) @ '':latest'',
         install_cmd = None,
         build_cmd = None,
         test_cmd = None,
         artifact_path = None\<rparr>
      in
      if stk = ''docker'' then
        Inr (ctx\<lparr>build_cmd := Some ''docker build -t ${{ steps.meta.outputs.tags }} .''\<rparr>)
      else if stk = ''node-npm'' then
        (case read_text (joinpath repo ''package.json'') of
           Inl e \<Rightarrow> Inl e
         | Inr pkg_content \<Rightarrow>
             Inr (ctx\<lparr>install_cmd := Some ''npm ci --prefer-offline'',
                      build_cmd :=
                        (if sublist (dquote # ''build'' @ [dquote]) pkg_content
                         then Some ''npm run build'' else None),
                      test_cmd :=
                        (if sublist (dquote # ''test'' @ [dquote]) pkg_content
                         then Some ''npm test'' else None)\<rparr>))
      else if stk = ''node-yarn'' then
        Inr (ctx\<lparr>install_cmd := Some ''yarn install --frozen-lockfile''\<rparr>)
      else if stk = ''node-pnpm'' then
        Inr (ctx\<lparr>install_cmd := Some ''pnpm i --frozen-lockfile''\<rparr>)
      else if stk = ''node-bun'' then
        Inr (ctx\<lparr>install_cmd := Some ''bun install --frozen-lockfile''\<rparr>)
      else if stk = ''deno'' then
        Inr (ctx\<lparr>install_cmd := Some ''deno cache main.ts'',
                 test_cmd := Some ''deno test''\<rparr>)
      else if stk = ''python-uv'' then
        Inr (ctx\<lparr>install_cmd := Some ''uv sync --frozen'',
                 test_cmd :=
                   (if has_file repo ''*test*.py'' \<or> has_file repo ''tests/''
                    then Some ''uv run pytest'' else None),
                 build_cmd :=
                   (if pyproject_has_tool repo ''uv'' then Some ''uv build'' else None)\<rparr>)
      else if stk = ''python-pdm'' then
        Inr (ctx\<lparr>install_cmd := Some ''pdm sync --no-editable'',
                 test_cmd := Some ''pdm run pytest''\<rparr>)
      else if stk = ''python-poetry'' then
        Inr (ctx\<lparr>install_cmd := Some ''poetry install --no-interaction --no-root'',
                 build_cmd := Some ''poetry build'',
                 test_cmd := Some ''poetry run pytest''\<rparr>)
      else if stk = ''python-pipenv'' then
        Inr (ctx\<lparr>install_cmd := Some ''pipenv install --deploy --ignore-pipfile''\<rparr>)
      else if stk = ''python-pip'' then
        Inr (ctx\<lparr>install_cmd := Some ''pip install -r requirements.txt''\<rparr>)
      else if stk = ''go'' then
        Inr (ctx\<lparr>install_cmd := Some ''go mod download'',
                 build_cmd := Some ''go build -o app .'',
                 test_cmd := Some ''go test ./...''\<rparr>)
      else if stk = ''rust'' then
        Inr (ctx\<lparr>build_cmd := Some ''cargo build --release'',
                 test_cmd := Some ''cargo test''\<rparr>)
      else if stk = ''dotnet'' then
        Inr (ctx\<lparr>install_cmd := Some ''dotnet restore'',
                 build_cmd := Some ''dotnet publish -c Release -o out'',
                 artifact_path := Some ''out''\<rparr>)
      else if stk = ''php-composer'' then
        Inr (ctx\<lparr>install_cmd := Some ''composer install --no-dev --optimize-autoloader''\<rparr>)
      else if stk = ''elixir'' then
        Inr (ctx\<lparr>install_cmd := Some ''mix deps.get'',
                 test_cmd := Some ''mix test''\<rparr>)
      else if stk = ''ruby'' then
        Inr (ctx\<lparr>install_cmd := Some ''bundle install --frozen''\<rparr>)
      else if stk = ''flutter'' then
        Inr (ctx\<lparr>install_cmd := Some ''flutter pub get'',
                 build_cmd := Some ''flutter build apk --release''\<rparr>)
      else Inr ctx)"

text \<open>
  The loop of \<^verbatim>\<open>detect_stack\<close> over the priority table: the first entry whose
  detector answers \<open>True\<close> ends the loop with that entry's result.
\<close>

fun first_match :: "stack_info list \<Rightarrow> path \<Rightarrow> (exn + resolution) option" where
  "first_match [] repo_path = None"
| "first_match ((stack_name, template_name, detector) # rest) repo_path =
     (if detector repo_path then
        Some (case build_context repo_path stack_name of
                Inl e \<Rightarrow> Inl e
              | Inr c \<Rightarrow> Inr \<lparr>stack = stack_name, template = template_name, context = c\<rparr>)
      else first_match rest repo_path)"

definition detect_stack :: "path \<Rightarrow> exn + resolution" where
  "detect_stack repo_path =
     (if \<not> is_dir repo_path then Inl ValueError
      else (case first_match STACK_PRIORITY repo_path of
              Some r \<Rightarrow> r
            | None \<Rightarrow>
                Inr \<lparr>stack = ''unknown'',
                     template = ''unknown.yml.j2'',
                     context =
                       \<lparr>project_name = replace CHR '' '' CHR ''-'' (lower (name repo_path)),
                        has_docker = detect_docker repo_path,
                        docker_tag = lower (name repo_path) @ '':latest'',
                        install_cmd = None,
                        build_cmd = None,
                        test_cmd = None,
                        artifact_path = None\<rparr>\<rparr>))"

section \<open>The scanner of environment files (\<^verbatim>\<open>core/utils.py\<close>)\<close>

text \<open>
  \<^verbatim>\<open>str.strip()\<close> removes the white space of both ends: the characters 9 to 13,
  28 to 31 and the blank.
\<close>

definition is_space :: "char \<Rightarrow> bool" where
  "is_space c =
     (let n = (of_char c :: nat) in (9 \<le> n \<and> n \<le> 13) \<or> (28 \<le> n \<and> n \<le> 32))"

definition strip :: "string \<Rightarrow> string" where
  "strip s = rev (dropWhile is_space (rev (dropWhile is_space s)))"

text \<open>
  The lines of a file opened in text mode: a line ends at \<^verbatim>\<open>\n\<close>, at \<^verbatim>\<open>\r\n\<close> or
  at a lone \<^verbatim>\<open>\r\<close>. The line terminators are left out, \<open>strip\<close> removes them
  anyway.
\<close>

fun split_lines :: "string \<Rightarrow> string list" where
  "split_lines [] = [[]]"
| "split_lines (c # cs) =
     (if c = CHR 0x0A then [] # split_lines cs
      else if c = CHR 0x0D then
        (case cs of
           d # ds \<Rightarrow> if d = CHR 0x0A then [] # split_lines ds else [] # split_lines cs
         | [] \<Rightarrow> [[], []])
      else (case split_lines cs of
              l # ls \<Rightarrow> (c # l) # ls
            | [] \<Rightarrow> [[c]]))"

text \<open>The body of the loop of \<^verbatim>\<open>parse_env_example\<close> over the lines of the file.\<close>

definition parse_line :: "string \<Rightarrow> (string \<rightharpoonup> string) \<Rightarrow> (string \<rightharpoonup> string)" where
  "parse_line raw env_vars =
     (let line = strip raw in
      if line = [] \<or> prefix ''#'' line then env_vars
      else if CHR ''='' \<in> set line then
        (let key = takeWhile (\<lambda>c. c \<noteq> CHR ''='') line;
             val = tl (dropWhile (\<lambda>c. c \<noteq> CHR ''='') line)
         in env_vars(strip key \<mapsto> strip val))
      else env_vars)"

text \<open>
  \<^verbatim>\<open>parse_env_example\<close>: a path that cannot be opened or read gives the empty
  dictionary, since both handlers only print. The file is opened without
  \<^verbatim>\<open>errors="ignore"\<close>; its text is the one of \<open>read_text\<close> when its bytes are valid
  UTF-8, which is the case modelled.
\<close>

definition parse_env_example :: "path \<Rightarrow> (string \<rightharpoonup> string)" where
  "parse_env_example example_path =
     (case read_text example_path of
        Inl e \<Rightarrow> Map.empty
      | Inr txt \<Rightarrow> fold parse_line (split_lines txt) Map.empty)"

definition danger_patterns :: "string list" where
  "danger_patterns = [''*.env'', ''*.env.*[!example]'']"

definition example_patterns :: "string list" where
  "example_patterns = [''*.env.example'', ''*.env.*.example'']"

record env_files =
  danger :: "(string list \<times> path) list"
  example :: "(string list \<times> path) list"
  variables :: "string \<rightharpoonup> (string \<rightharpoonup> string)"

definition find_env_files :: "path \<Rightarrow> env_files" where
  "find_env_files repo_path =
     (let danger = concat (map (rglob repo_path) danger_patterns);
          example_files = concat (map (rglob repo_path) example_patterns);
          variables =
            fold (\<lambda>file vars. vars(name (snd file) \<mapsto> parse_env_example (snd file)))
              example_files Map.empty
      in \<lparr>danger = danger, example = example_files, variables = variables\<rparr>)"

section \<open>Example repositories\<close>

text \<open>A Go service with a root \<^verbatim>\<open>Dockerfile\<close> beside three other manifests.\<close>

definition containerised_go :: path where
  "containerised_go =
     \<lparr>name = ''svc'',
      target = Some (Dir [(''go.mod'', File (Some ''module svc'')),
                          (''package.json'', File (Some ''{}'')),
                          (''Cargo.toml'', File (Some [])),
                          (''Dockerfile'', File (Some ''FROM scratch''))])\<rparr>"

text \<open>A Node project managed with Bun.\<close>

definition bun_project :: path where
  "bun_project =
     \<lparr>name = ''web'',
      target = Some (Dir [(''package.json'', File (Some ''{}'')),
                          (''bun.lockb'', File (Some [])),
                          (''src'', Dir [(''index.ts'', File (Some []))])])\<rparr>"

text \<open>
  A Node project whose \<^verbatim>\<open>package.json\<close> is \<^verbatim>\<open>{"build": 1}\<close>, and the result
  expected for it.
\<close>

definition npm_project :: path where
  "npm_project =
     \<lparr>name = ''site'',
      target = Some (Dir [(''package.json'',
                           File (Some (''{'' @ [dquote] @ ''build'' @ [dquote] @ '': 1}'')))])\<rparr>"

definition npm_resolution :: resolution where
  "npm_resolution =
     \<lparr>stack = ''node-npm'', template = ''node-npm.yml.j2'',
      context =
        \<lparr>project_name = ''site'', has_docker = False, docker_tag = ''site:latest'',
         install_cmd = Some ''npm ci --prefer-offline'',
         build_cmd = Some ''npm run build'',
         test_cmd = None,
         artifact_path = None\<rparr>\<rparr>"

text \<open>A documentation-only repository.\<close>

definition notes_repo :: path where
  "notes_repo =
     \<lparr>name = ''Field Notes'',
      target = Some (Dir [(''README.md'', File (Some ''# notes'')),
                          (''docs'', Dir [(''intro.txt'', File (Some ''hello''))])])\<rparr>"

text \<open>A Poetry project whose section header is written in capitals.\<close>

definition poetry_project :: path where
  "poetry_project =
     \<lparr>name = ''api'',
      target = Some (Dir [(''pyproject.toml'', File (Some ''[TOOL.POETRY]''))])\<rparr>"

text \<open>An empty directory, and the result expected for it.\<close>

definition empty_repo :: path where
  "empty_repo = \<lparr>name = ''scratchpad'', target = Some (Dir [])\<rparr>"

definition empty_resolution :: resolution where
  "empty_resolution =
     \<lparr>stack = ''unknown'', template = ''unknown.yml.j2'',
      context =
        \<lparr>project_name = ''scratchpad'', has_docker = False,
         docker_tag = ''scratchpad:latest'',
         install_cmd = None, build_cmd = None, test_cmd = None, artifact_path = None\<rparr>\<rparr>"

text \<open>An empty directory whose name has underscores.\<close>

definition underscored_repo :: path where
  "underscored_repo = \<lparr>name = ''My_Cool_App'', target = Some (Dir [])\<rparr>"

text \<open>A Node project whose \<^verbatim>\<open>package.json\<close> exists and cannot be read.\<close>

definition locked_manifest_repo :: path where
  "locked_manifest_repo =
     \<lparr>name = ''shop'', target = Some (Dir [(''package.json'', File None)])\<rparr>"

text \<open>The same failure beside a readable file.\<close>

definition unreadable_manifest_repo :: path where
  "unreadable_manifest_repo =
     \<lparr>name = ''blog'',
      target = Some (Dir [(''README.md'', File (Some ''# blog'')),
                          (''package.json'', File None)])\<rparr>"

text \<open>The three environment files of the scanner's example.\<close>

definition env_repo :: path where
  "env_repo =
     \<lparr>name = ''service'',
      target = Some (Dir [(''.env'', File (Some ''SECRET=1'')),
                          (''.env.local'', File (Some ''SECRET=2'')),
                          (''.env.example'', File (Some ''SECRET=''))])\<rparr>"

section \<open>Supporting lemmas\<close>

subsection \<open>Files and globbing\<close>

lemma rglob_node_selected:
  assumes "(n, x) \<in> set es" and "selects pattern (n, x)"
  shows "rglob_node pattern pre (Dir es) \<noteq> []"
proof -
  from assms have "filter (selects pattern) es \<noteq> []"
    by (auto simp: filter_empty_conv)
  then show ?thesis by simp
qed

lemma file_exists_entry:
  "file_exists repo filename \<Longrightarrow>
     \<exists>es c. target repo = Some (Dir es) \<and> (filename, File c) \<in> set es"
  by (auto simp: file_exists_def is_file_def joinpath_def
      split: option.splits fsnode.splits dest: map_of_SomeD)

lemma file_exists_is_dir: "file_exists repo filename \<Longrightarrow> is_dir repo"
  by (auto simp: is_dir_def dest: file_exists_entry)

lemma selects_Dockerfile: "selects ''Dockerfile'' (''Dockerfile'', File c)"
  by (simp add: dir_only_def component_def)

lemma root_Dockerfile_detected:
  assumes "file_exists repo ''Dockerfile''"
  shows "detect_docker repo"
proof -
  from assms obtain es c where t: "target repo = Some (Dir es)"
    and e: "(''Dockerfile'', File c) \<in> set es"
    by (blast dest: file_exists_entry)
  from e selects_Dockerfile have "rglob_node ''Dockerfile'' [] (Dir es) \<noteq> []"
    by (rule rglob_node_selected)
  with t show ?thesis
    by (simp add: detect_docker_def has_file_def rglob_def)
qed

lemma local_env_not_dangerous:
  "\<not> gmatch (translate ''*.env'') ''.env.local''"
  "\<not> gmatch (translate ''*.env.*[!example]'') ''.env.local''"
  by (simp_all add: class_end_def)

subsection \<open>Case folding and the sections of \<^verbatim>\<open>pyproject.toml\<close>\<close>

lemma lower_sublist: "sublist m content \<Longrightarrow> sublist (lower m) (lower content)"
  unfolding lower_def by (rule map_mono_sublist)

lemma lower_tool_marker:
  "lower (''[tool.'' @ ''uv'' @ '']'') = ''[tool.uv]''"
  "lower (''[tool.'' @ ''pdm'' @ '']'') = ''[tool.pdm]''"
  "lower (''[tool.'' @ ''poetry'' @ '']'') = ''[tool.poetry]''"
  by code_simp+

lemma pyproject_has_tool_readable:
  assumes "read_text (joinpath repo ''pyproject.toml'') = Inr content"
  shows "pyproject_has_tool repo tool_name
           \<longleftrightarrow> sublist (lower (''[tool.'' @ tool_name @ '']'')) (lower content)"
proof -
  from assms have "is_file (joinpath repo ''pyproject.toml'')"
    by (auto simp: read_text_def is_file_def split: option.splits fsnode.splits)
  with assms show ?thesis
    by (simp add: pyproject_has_tool_def file_exists_def file_contains_def Let_def)
qed

subsection \<open>The priority loop\<close>

lemma first_match_None:
  "first_match tbl repo = None \<longleftrightarrow> (\<forall>(s, t, d) \<in> set tbl. \<not> d repo)"
  by (induction tbl repo rule: first_match.induct) auto

lemma first_match_Inr:
  "first_match tbl repo = Some (Inr r) \<Longrightarrow>
     \<exists>d. (stack r, template r, d) \<in> set tbl \<and> d repo
          \<and> build_context repo (stack r) = Inr (context r)"
  by (induction tbl repo rule: first_match.induct)
     (auto split: if_splits sum.splits)

lemma first_match_Inl:
  "first_match tbl repo = Some (Inl e) \<Longrightarrow>
     \<exists>s t d. (s, t, d) \<in> set tbl \<and> d repo \<and> build_context repo s = Inl e"
  by (induction tbl repo rule: first_match.induct)
     (auto split: if_splits sum.splits)

lemma build_context_Inl:
  "build_context repo stk = Inl e \<Longrightarrow>
     stk = ''node-npm'' \<and> e = OSError \<and> read_text (joinpath repo ''package.json'') = Inl OSError"
  by (auto simp: build_context_def Let_def read_text_def
      split: if_splits sum.splits option.splits fsnode.splits)

lemma build_context_project_name:
  "build_context repo stk = Inr c \<Longrightarrow>
     project_name c = replace CHR ''_'' CHR ''-'' (replace CHR '' '' CHR ''-'' (lower (name repo)))"
  by (auto simp: build_context_def Let_def split: if_splits sum.splits)

lemma stack_names:
  "(s, t, d) \<in> set STACK_PRIORITY \<Longrightarrow> s \<noteq> ''unknown''"
  by (auto simp: STACK_PRIORITY_def)

lemma node_npm_entry:
  "(''node-npm'', t, d) \<in> set STACK_PRIORITY \<Longrightarrow> d = detect_node_npm"
  by (auto simp: STACK_PRIORITY_def)

subsection \<open>The resolver\<close>

text \<open>
  The \<^verbatim>\<open>ValueError\<close> of \<^verbatim>\<open>detect_stack\<close> is raised exactly for a path that is
  not a directory, and the only other exception that can leave the call is the one of
  the unguarded read of \<^verbatim>\<open>package.json\<close>. A result for a matched stack has the
  project name normalised by \<^verbatim>\<open>_build_context\<close>. The stack \<^verbatim>\<open>node-npm\<close> is returned
  only when its own detector held, and is returned whenever that detector holds, the
  manifest can be read and neither \<^verbatim>\<open>docker\<close> nor \<^verbatim>\<open>node-pnpm\<close> matches (the other two
  Node stacks are excluded by the detector itself).
\<close>

lemma detect_stack_ValueError_iff:
  "detect_stack repo_path = Inl ValueError \<longleftrightarrow> \<not> is_dir repo_path"
proof
  assume v: "detect_stack repo_path = Inl ValueError"
  show "\<not> is_dir repo_path"
  proof
    assume "is_dir repo_path"
    with v have "first_match STACK_PRIORITY repo_path = Some (Inl ValueError)"
      by (auto simp: detect_stack_def split: option.splits)
    then obtain s where "build_context repo_path s = Inl ValueError"
      by (blast dest: first_match_Inl)
    then show False by (auto dest: build_context_Inl)
  qed
next
  assume "\<not> is_dir repo_path"
  then show "detect_stack repo_path = Inl ValueError"
    by (simp add: detect_stack_def)
qed

lemma detect_stack_raises_only_on_manifest_read:
  assumes "is_dir repo_path" and "detect_stack repo_path = Inl e"
  shows "e = OSError \<and> read_text (joinpath repo_path ''package.json'') = Inl OSError"
proof -
  from assms have "first_match STACK_PRIORITY repo_path = Some (Inl e)"
    by (auto simp: detect_stack_def split: option.splits)
  then obtain s where "build_context repo_path s = Inl e"
    by (blast dest: first_match_Inl)
  then show ?thesis by (auto dest: build_context_Inl)
qed

lemma matched_project_name:
  assumes "detect_stack repo = Inr r" and "stack r \<noteq> ''unknown''"
  shows "project_name (context r) =
           replace CHR ''_'' CHR ''-'' (replace CHR '' '' CHR ''-'' (lower (name repo)))"
proof -
  from assms have "first_match STACK_PRIORITY repo = Some (Inr r)"
    by (auto simp: detect_stack_def split: if_splits option.splits)
  then have "build_context repo (stack r) = Inr (context r)"
    by (blast dest: first_match_Inr)
  then show ?thesis by (rule build_context_project_name)
qed

lemma resolved_node_npm:
  assumes "detect_stack repo = Inr r" and "stack r = ''node-npm''"
  shows "detect_node_npm repo \<and> build_context repo ''node-npm'' = Inr (context r)"
proof -
  from assms have "first_match STACK_PRIORITY repo = Some (Inr r)"
    by (auto simp: detect_stack_def split: if_splits option.splits)
  then obtain d where mem: "(stack r, template r, d) \<in> set STACK_PRIORITY"
    and hit: "d repo" and bc: "build_context repo (stack r) = Inr (context r)"
    by (blast dest: first_match_Inr)
  from mem assms(2) have "d = detect_node_npm"
    by (auto dest: node_npm_entry)
  with hit bc assms(2) show ?thesis by simp
qed

lemma node_npm_resolves:
  assumes "detect_node_npm repo"
    and "read_text (joinpath repo ''package.json'') = Inr pkg_content"
    and "\<not> detect_docker repo" and "\<not> detect_node_pnpm repo"
  shows "\<exists>r. detect_stack repo = Inr r \<and> stack r = ''node-npm''"
proof -
  from assms(1) have pkg: "file_exists repo ''package.json''"
    and bun: "\<not> detect_node_bun repo" and yarn: "\<not> detect_node_yarn repo"
    by (simp_all add: detect_node_npm_def detect_node_bun_def detect_node_yarn_def)
  from pkg have dir: "is_dir repo" by (rule file_exists_is_dir)
  from assms(2) obtain c where c: "build_context repo ''node-npm'' = Inr c"
    by (simp add: build_context_def Let_def)
  from assms(1,3,4) bun yarn c have "first_match STACK_PRIORITY repo
      = Some (Inr \<lparr>stack = ''node-npm'', template = ''node-npm.yml.j2'', context = c\<rparr>)"
    by (simp add: STACK_PRIORITY_def)
  with dir show ?thesis by (simp add: detect_stack_def)
qed

lemma bun_lockfile_excludes_npm:
  assumes "file_exists repo ''bun.lockb''" and "detect_stack repo = Inr r"
  shows "stack r \<noteq> ''node-npm''"
proof
  assume "stack r = ''node-npm''"
  with assms(2) have "detect_node_npm repo" by (simp add: resolved_node_npm)
  with assms(1) show False by (simp add: detect_node_npm_def)
qed

subsection \<open>Results of the example repositories\<close>

lemma npm_project_resolution: "detect_stack npm_project = Inr npm_resolution"
  by (simp add: npm_project_def npm_resolution_def detect_stack_def is_dir_def
      STACK_PRIORITY_def detect_docker_def has_file_def rglob_def dir_only_def component_def
      detect_node_bun_def detect_node_pnpm_def detect_node_yarn_def detect_node_npm_def
      file_exists_def is_file_def joinpath_def build_context_def Let_def read_text_def
      lower_def lower_chr_def replace_def dquote_def sublist_code)

lemma notes_repo_no_evidence: "\<forall>(s, t, d) \<in> set STACK_PRIORITY. \<not> d notes_repo"
  by (simp add: STACK_PRIORITY_def notes_repo_def
      detect_docker_def detect_node_bun_def detect_node_pnpm_def detect_node_yarn_def
      detect_node_npm_def detect_deno_def detect_python_uv_def detect_python_pdm_def
      detect_python_poetry_def detect_python_pipenv_def detect_python_pip_def
      detect_elixir_def detect_ruby_def detect_flutter_def detect_java_maven_def
      detect_java_gradle_def detect_dotnet_def detect_go_def detect_rust_def
      detect_php_composer_def pyproject_has_tool_def
      has_file_def rglob_def dir_only_def component_def
      file_exists_def is_file_def joinpath_def)

lemma empty_repo_resolution: "detect_stack empty_repo = Inr empty_resolution"
  by (simp add: empty_repo_def empty_resolution_def detect_stack_def is_dir_def
      STACK_PRIORITY_def
      detect_docker_def detect_node_bun_def detect_node_pnpm_def detect_node_yarn_def
      detect_node_npm_def detect_deno_def detect_python_uv_def detect_python_pdm_def
      detect_python_poetry_def detect_python_pipenv_def detect_python_pip_def
      detect_elixir_def detect_ruby_def detect_flutter_def detect_java_maven_def
      detect_java_gradle_def detect_dotnet_def detect_go_def detect_rust_def
      detect_php_composer_def pyproject_has_tool_def
      has_file_def rglob_def file_exists_def is_file_def joinpath_def
      lower_def lower_chr_def replace_def)

lemma underscored_repo_no_evidence:
  "\<forall>(s, t, d) \<in> set STACK_PRIORITY. \<not> d underscored_repo"
  by (simp add: STACK_PRIORITY_def underscored_repo_def
      detect_docker_def detect_node_bun_def detect_node_pnpm_def detect_node_yarn_def
      detect_node_npm_def detect_deno_def detect_python_uv_def detect_python_pdm_def
      detect_python_poetry_def detect_python_pipenv_def detect_python_pip_def
      detect_elixir_def detect_ruby_def detect_flutter_def detect_java_maven_def
      detect_java_gradle_def detect_dotnet_def detect_go_def detect_rust_def
      detect_php_composer_def pyproject_has_tool_def
      has_file_def rglob_def file_exists_def is_file_def joinpath_def)

section \<open>The claims\<close>

text \<open>
  \<^bold>\<open>C1.\<close> For every repository directory that has a file named \<^verbatim>\<open>Dockerfile\<close> at its
  root, \<^verbatim>\<open>detect_stack\<close> returns a result whose stack is \<^verbatim>\<open>docker\<close> (with the
  template of that stack), whatever else the directory holds: the theorem puts no
  condition on the other entries, and its witness is a repository that also has
  \<^verbatim>\<open>go.mod\<close>, \<^verbatim>\<open>package.json\<close> and \<^verbatim>\<open>Cargo.toml\<close>.
\<close>

theorem root_dockerfile_resolves_to_docker:
  assumes "is_dir repo" and "file_exists repo ''Dockerfile''"
  shows "\<exists>r. detect_stack repo = Inr r \<and> stack r = ''docker'' \<and> template r = ''docker.yml.j2''"
proof -
  from assms(2) have d: "detect_docker repo" by (rule root_Dockerfile_detected)
  obtain c where c: "build_context repo ''docker'' = Inr c"
    by (simp add: build_context_def Let_def)
  from d c have "first_match STACK_PRIORITY repo
      = Some (Inr \<lparr>stack = ''docker'', template = ''docker.yml.j2'', context = c\<rparr>)"
    by (simp add: STACK_PRIORITY_def)
  with assms(1) show ?thesis by (simp add: detect_stack_def)
qed

theorem root_dockerfile_resolves_to_docker_witness:
  "is_dir containerised_go \<and> file_exists containerised_go ''Dockerfile''
   \<and> file_exists containerised_go ''go.mod''
   \<and> (\<exists>r. detect_stack containerised_go = Inr r \<and> stack r = ''docker''
          \<and> template r = ''docker.yml.j2'')"
proof -
  have d: "is_dir containerised_go"
    by (simp add: containerised_go_def is_dir_def)
  have f: "file_exists containerised_go ''Dockerfile''"
    by (simp add: containerised_go_def file_exists_def is_file_def joinpath_def)
  have g: "file_exists containerised_go ''go.mod''"
    by (simp add: containerised_go_def file_exists_def is_file_def joinpath_def)
  from d f g root_dockerfile_resolves_to_docker [OF d f] show ?thesis by simp
qed

text \<open>
  \<^bold>\<open>C2.\<close> For every repository with \<^verbatim>\<open>package.json\<close> and \<^verbatim>\<open>bun.lockb\<close> at its root
  and no Dockerfile, \<^verbatim>\<open>detect_stack\<close> returns the stack \<^verbatim>\<open>node-bun\<close>, not
  \<^verbatim>\<open>node-npm\<close>. ``No Dockerfile'' is the code's own test of it, \<open>detect_docker\<close>:
  no entry named \<^verbatim>\<open>Dockerfile\<close> or \<^verbatim>\<open>dockerfile\<close> at any depth. With such an entry
  the stack is \<^verbatim>\<open>docker\<close>, and still never \<^verbatim>\<open>node-npm\<close>
  (\<open>bun_lockfile_excludes_npm\<close>).
\<close>

theorem bun_lockfile_beats_npm:
  assumes "file_exists repo ''package.json''" and "file_exists repo ''bun.lockb''"
    and "\<not> detect_docker repo"
  shows "\<exists>r. detect_stack repo = Inr r \<and> stack r = ''node-bun'' \<and> stack r \<noteq> ''node-npm''"
proof -
  from assms(2) have dir: "is_dir repo" by (rule file_exists_is_dir)
  from assms(2) have bun: "detect_node_bun repo" by (simp add: detect_node_bun_def)
  obtain c where c: "build_context repo ''node-bun'' = Inr c"
    by (simp add: build_context_def Let_def)
  from assms(3) bun c have "first_match STACK_PRIORITY repo
      = Some (Inr \<lparr>stack = ''node-bun'', template = ''node-bun.yml.j2'', context = c\<rparr>)"
    by (simp add: STACK_PRIORITY_def)
  with dir show ?thesis by (simp add: detect_stack_def)
qed

theorem bun_lockfile_beats_npm_witness:
  "file_exists bun_project ''package.json'' \<and> file_exists bun_project ''bun.lockb''
   \<and> \<not> detect_docker bun_project
   \<and> (\<exists>r. detect_stack bun_project = Inr r \<and> stack r = ''node-bun''
          \<and> stack r \<noteq> ''node-npm'')"
proof -
  have p: "file_exists bun_project ''package.json''"
    by (simp add: bun_project_def file_exists_def is_file_def joinpath_def)
  have b: "file_exists bun_project ''bun.lockb''"
    by (simp add: bun_project_def file_exists_def is_file_def joinpath_def)
  have n: "\<not> detect_docker bun_project"
    by (simp add: bun_project_def detect_docker_def has_file_def rglob_def
        dir_only_def component_def)
  from p b n bun_lockfile_beats_npm [OF p b n] show ?thesis by simp
qed

text \<open>
  \<^bold>\<open>C3.\<close> For every repository that \<^verbatim>\<open>detect_stack\<close> resolves to \<^verbatim>\<open>node-npm\<close>,
  the predicate of \<^verbatim>\<open>node-npm\<close> holds (\<^verbatim>\<open>package.json\<close> at the root and none of
  the three lock files), \<^verbatim>\<open>package.json\<close> was read, and in the returned context
  \<^verbatim>\<open>build_cmd\<close> is \<^verbatim>\<open>npm run build\<close> when the text contains \<^verbatim>\<open>"build"\<close>, quotes
  included, and absent otherwise; \<^verbatim>\<open>test_cmd\<close> is \<^verbatim>\<open>npm test\<close> when the text
  contains \<^verbatim>\<open>"test"\<close> and absent otherwise. That such repositories are resolved to
  \<^verbatim>\<open>node-npm\<close> is \<open>node_npm_resolves\<close>.
\<close>

theorem node_npm_commands_follow_package_json:
  assumes "detect_stack repo = Inr r" and "stack r = ''node-npm''"
  shows "\<exists>pkg_content.
           read_text (joinpath repo ''package.json'') = Inr pkg_content
         \<and> detect_node_npm repo
         \<and> build_cmd (context r) =
             (if sublist (dquote # ''build'' @ [dquote]) pkg_content
              then Some ''npm run build'' else None)
         \<and> test_cmd (context r) =
             (if sublist (dquote # ''test'' @ [dquote]) pkg_content
              then Some ''npm test'' else None)"
proof -
  from assms have npm: "detect_node_npm repo"
    and bc': "build_context repo ''node-npm'' = Inr (context r)"
    by (simp_all add: resolved_node_npm)
  from bc' obtain pkg_content where rd: "read_text (joinpath repo ''package.json'') = Inr pkg_content"
    by (cases "read_text (joinpath repo ''package.json'')")
       (auto simp: build_context_def Let_def)
  define c where "c =
     \<lparr>project_name = replace CHR ''_'' CHR ''-'' (replace CHR '' '' CHR ''-'' (lower (name repo))),
      has_docker = detect_docker repo,
      docker_tag = lower (name repo) @ '':latest'',
      install_cmd = Some ''npm ci --prefer-offline'',
      build_cmd =
        (if sublist (dquote # ''build'' @ [dquote]) pkg_content
         then Some ''npm run build'' else None),
      test_cmd =
        (if sublist (dquote # ''test'' @ [dquote]) pkg_content
         then Some ''npm test'' else None),
      artifact_path = None\<rparr>"
  from rd have "build_context repo ''node-npm'' = Inr c"
    by (simp add: build_context_def Let_def c_def)
  with bc' have "context r = c" by simp
  then have "build_cmd (context r) =
             (if sublist (dquote # ''build'' @ [dquote]) pkg_content
              then Some ''npm run build'' else None)"
    and "test_cmd (context r) =
             (if sublist (dquote # ''test'' @ [dquote]) pkg_content
              then Some ''npm test'' else None)"
    by (simp_all add: c_def)
  with rd npm show ?thesis by blast
qed

theorem node_npm_commands_follow_package_json_witness:
  "detect_stack npm_project = Inr npm_resolution \<and> stack npm_resolution = ''node-npm''
   \<and> build_cmd (context npm_resolution) = Some ''npm run build''
   \<and> test_cmd (context npm_resolution) = None
   \<and> (\<exists>pkg_content.
           read_text (joinpath npm_project ''package.json'') = Inr pkg_content
         \<and> detect_node_npm npm_project
         \<and> build_cmd (context npm_resolution) =
             (if sublist (dquote # ''build'' @ [dquote]) pkg_content
              then Some ''npm run build'' else None)
         \<and> test_cmd (context npm_resolution) =
             (if sublist (dquote # ''test'' @ [dquote]) pkg_content
              then Some ''npm test'' else None))"
proof -
  have s: "stack npm_resolution = ''node-npm''" by (simp add: npm_resolution_def)
  have b: "build_cmd (context npm_resolution) = Some ''npm run build''"
    and t: "test_cmd (context npm_resolution) = None"
    by (simp_all add: npm_resolution_def)
  from npm_project_resolution s b t
    node_npm_commands_follow_package_json [OF npm_project_resolution s]
  show ?thesis by blast
qed

text \<open>
  \<^bold>\<open>C4.\<close> The project name of every result is the directory's name in lower case with
  every blank and every underscore replaced by a hyphen. This holds for every matched
  stack (\<open>matched_project_name\<close>), but the dictionary built for the stack
  \<^verbatim>\<open>unknown\<close> replaces the blanks only: for an empty directory named
  \<^verbatim>\<open>My_Cool_App\<close> the normalised name is \<^verbatim>\<open>my-cool-app\<close> and the code returns
  \<^verbatim>\<open>my_cool_app\<close>.
\<close>

theorem fallback_keeps_underscores:
  "is_dir underscored_repo
   \<and> replace CHR ''_'' CHR ''-'' (replace CHR '' '' CHR ''-'' (lower (name underscored_repo)))
       = ''my-cool-app''
   \<and> detect_stack underscored_repo =
       Inr \<lparr>stack = ''unknown'', template = ''unknown.yml.j2'',
            context =
              \<lparr>project_name = ''my_cool_app'', has_docker = False,
               docker_tag = ''my_cool_app:latest'',
               install_cmd = None, build_cmd = None, test_cmd = None,
               artifact_path = None\<rparr>\<rparr>"
proof -
  have d: "is_dir underscored_repo" by (simp add: underscored_repo_def is_dir_def)
  have n: "name underscored_repo = ''My_Cool_App''" by (simp add: underscored_repo_def)
  have l: "lower ''My_Cool_App'' = ''my_cool_app''" by code_simp
  have none: "first_match STACK_PRIORITY underscored_repo = None"
    using underscored_repo_no_evidence by (simp add: first_match_None)
  have nd: "\<not> detect_docker underscored_repo"
    using underscored_repo_no_evidence by (auto simp: STACK_PRIORITY_def)
  from d none nd show ?thesis
    by (simp add: detect_stack_def n l replace_def)
qed

text \<open>
  \<^bold>\<open>C5.\<close> For every repository directory on which no detector of the priority table
  answers \<open>True\<close>, \<^verbatim>\<open>detect_stack\<close> returns a result, not an error: the stack
  \<^verbatim>\<open>unknown\<close>, the template \<^verbatim>\<open>unknown.yml.j2\<close>, and a context whose four command
  fields are absent and whose project name, Docker flag and Docker tag are filled in.
\<close>

theorem no_match_gives_unknown:
  assumes "is_dir repo" and "\<forall>(s, t, d) \<in> set STACK_PRIORITY. \<not> d repo"
  shows "detect_stack repo =
           Inr \<lparr>stack = ''unknown'', template = ''unknown.yml.j2'',
                context =
                  \<lparr>project_name = replace CHR '' '' CHR ''-'' (lower (name repo)),
                   has_docker = False,
                   docker_tag = lower (name repo) @ '':latest'',
                   install_cmd = None, build_cmd = None, test_cmd = None,
                   artifact_path = None\<rparr>\<rparr>"
proof -
  from assms(2) have none: "first_match STACK_PRIORITY repo = None"
    by (simp add: first_match_None)
  from assms(2) have "\<not> detect_docker repo"
    by (auto simp: STACK_PRIORITY_def)
  with assms(1) none show ?thesis
    by (simp add: detect_stack_def)
qed

theorem no_match_gives_unknown_witness:
  "is_dir notes_repo \<and> first_match STACK_PRIORITY notes_repo = None
   \<and> detect_stack notes_repo =
           Inr \<lparr>stack = ''unknown'', template = ''unknown.yml.j2'',
                context =
                  \<lparr>project_name = ''field-notes'',
                   has_docker = False,
                   docker_tag = ''field notes:latest'',
                   install_cmd = None, build_cmd = None, test_cmd = None,
                   artifact_path = None\<rparr>\<rparr>"
proof -
  have d: "is_dir notes_repo" by (simp add: notes_repo_def is_dir_def)
  have n: "name notes_repo = ''Field Notes''" by (simp add: notes_repo_def)
  have l: "lower ''Field Notes'' = ''field notes''"
    by code_simp
  have f: "first_match STACK_PRIORITY notes_repo = None"
    using notes_repo_no_evidence by (simp add: first_match_None)
  from no_match_gives_unknown [OF d notes_repo_no_evidence] d f
  show ?thesis
    by (simp add: n l replace_def)
qed

text \<open>
  \<^bold>\<open>C6.\<close> For every repository directory whose root \<^verbatim>\<open>pyproject.toml\<close> contains
  \<^verbatim>\<open>[tool.poetry]\<close> in some casing (a piece \<open>marker\<close> of the text whose lower case
  is \<^verbatim>\<open>[tool.poetry]\<close>), contains neither \<^verbatim>\<open>[tool.uv]\<close> nor \<^verbatim>\<open>[tool.pdm]\<close> in
  any casing, and on which no stack listed before the Python ones matches,
  \<^verbatim>\<open>detect_stack\<close> returns the stack \<^verbatim>\<open>python-poetry\<close>.
\<close>

theorem poetry_section_any_casing:
  assumes "is_dir repo"
    and "read_text (joinpath repo ''pyproject.toml'') = Inr content"
    and "sublist marker content" and "lower marker = ''[tool.poetry]''"
    and "\<not> sublist ''[tool.uv]'' (lower content)"
    and "\<not> sublist ''[tool.pdm]'' (lower content)"
    and "\<not> detect_docker repo" and "\<not> detect_node_bun repo" and "\<not> detect_node_pnpm repo"
    and "\<not> detect_node_yarn repo" and "\<not> detect_node_npm repo" and "\<not> detect_deno repo"
  shows "\<exists>r. detect_stack repo = Inr r \<and> stack r = ''python-poetry''
             \<and> template r = ''python-poetry.yml.j2''"
proof -
  from assms(3) have "sublist (lower marker) (lower content)" by (rule lower_sublist)
  with assms(4) have "sublist ''[tool.poetry]'' (lower content)" by simp
  with assms(2) have poetry: "detect_python_poetry repo"
    by (simp add: detect_python_poetry_def pyproject_has_tool_readable lower_tool_marker
        del: append.simps)
  from assms(2,5) have uv: "\<not> detect_python_uv repo"
    by (simp add: detect_python_uv_def pyproject_has_tool_readable lower_tool_marker
        del: append.simps)
  from assms(2,6) have pdm: "\<not> detect_python_pdm repo"
    by (simp add: detect_python_pdm_def pyproject_has_tool_readable lower_tool_marker
        del: append.simps)
  obtain c where c: "build_context repo ''python-poetry'' = Inr c"
    by (simp add: build_context_def Let_def)
  from assms(7-12) uv pdm poetry c have "first_match STACK_PRIORITY repo
      = Some (Inr \<lparr>stack = ''python-poetry'', template = ''python-poetry.yml.j2'',
                    context = c\<rparr>)"
    by (simp add: STACK_PRIORITY_def)
  with assms(1) show ?thesis by (simp add: detect_stack_def)
qed

theorem poetry_section_any_casing_witness:
  "is_dir poetry_project
   \<and> read_text (joinpath poetry_project ''pyproject.toml'') = Inr ''[TOOL.POETRY]''
   \<and> sublist ''[TOOL.POETRY]'' ''[TOOL.POETRY]''
   \<and> lower ''[TOOL.POETRY]'' = ''[tool.poetry]''
   \<and> \<not> sublist ''[tool.uv]'' (lower ''[TOOL.POETRY]'')
   \<and> \<not> sublist ''[tool.pdm]'' (lower ''[TOOL.POETRY]'')
   \<and> \<not> detect_docker poetry_project \<and> \<not> detect_node_bun poetry_project
   \<and> \<not> detect_node_pnpm poetry_project \<and> \<not> detect_node_yarn poetry_project
   \<and> \<not> detect_node_npm poetry_project \<and> \<not> detect_deno poetry_project
   \<and> (\<exists>r. detect_stack poetry_project = Inr r \<and> stack r = ''python-poetry''
          \<and> template r = ''python-poetry.yml.j2'')"
proof -
  have h1: "is_dir poetry_project" by (simp add: poetry_project_def is_dir_def)
  have h2: "read_text (joinpath poetry_project ''pyproject.toml'') = Inr ''[TOOL.POETRY]''"
    by (simp add: poetry_project_def read_text_def joinpath_def)
  have h3: "sublist ''[TOOL.POETRY]'' ''[TOOL.POETRY]''" by simp
  have h4: "lower ''[TOOL.POETRY]'' = ''[tool.poetry]''" by code_simp
  have h5: "\<not> sublist ''[tool.uv]'' (lower ''[TOOL.POETRY]'')"
    unfolding h4 by (simp add: sublist_code)
  have h6: "\<not> sublist ''[tool.pdm]'' (lower ''[TOOL.POETRY]'')"
    unfolding h4 by (simp add: sublist_code)
  have h7: "\<not> detect_docker poetry_project"
    by (simp add: poetry_project_def detect_docker_def has_file_def rglob_def
        dir_only_def component_def)
  have h8: "\<not> detect_node_bun poetry_project"
    and h9: "\<not> detect_node_pnpm poetry_project"
    and h10: "\<not> detect_node_yarn poetry_project"
    and h11: "\<not> detect_node_npm poetry_project"
    by (simp_all add: poetry_project_def detect_node_bun_def detect_node_pnpm_def
        detect_node_yarn_def detect_node_npm_def file_exists_def is_file_def joinpath_def)
  have h12: "\<not> detect_deno poetry_project"
    by (simp add: poetry_project_def detect_deno_def has_file_def rglob_def
        dir_only_def component_def)
  from poetry_section_any_casing [OF h1 h2 h3 h4 h5 h6 h7 h8 h9 h10 h11 h12]
    h1 h2 h3 h4 h5 h6 h7 h8 h9 h10 h11 h12
  show ?thesis by blast
qed

text \<open>
  \<^bold>\<open>C7.\<close> \<^verbatim>\<open>detect_stack\<close> raises exactly for a path that is not a directory, and
  returns a result for every directory. The first half holds for the \<^verbatim>\<open>ValueError\<close>
  (\<open>detect_stack_ValueError_iff\<close>); the second fails on a directory whose
  \<^verbatim>\<open>package.json\<close> cannot be read: the call ends with the \<^verbatim>\<open>OSError\<close> of
  \<^verbatim>\<open>read_text\<close>.
\<close>

theorem existing_directory_raises:
  "is_dir locked_manifest_repo \<and> detect_stack locked_manifest_repo = Inl OSError"
  by (simp add: locked_manifest_repo_def detect_stack_def is_dir_def
      STACK_PRIORITY_def detect_docker_def has_file_def rglob_def dir_only_def component_def
      detect_node_bun_def detect_node_pnpm_def detect_node_yarn_def detect_node_npm_def
      file_exists_def is_file_def joinpath_def build_context_def Let_def read_text_def)

text \<open>
  \<^bold>\<open>C8.\<close> A failure to read a file is taken as missing evidence and never reaches the
  caller of \<^verbatim>\<open>detect_stack\<close>. \<^verbatim>\<open>_file_contains\<close> does so: on an unreadable
  \<^verbatim>\<open>package.json\<close> it answers \<open>False\<close>. The read of the \<^verbatim>\<open>node-npm\<close> branch of
  \<^verbatim>\<open>_build_context\<close> does not: the same file makes \<^verbatim>\<open>_build_context\<close>, and with
  it \<^verbatim>\<open>detect_stack\<close>, end with the \<^verbatim>\<open>OSError\<close>.
\<close>

theorem manifest_read_failure_propagates:
  "is_dir unreadable_manifest_repo
   \<and> \<not> file_contains unreadable_manifest_repo ''package.json'' ''build''
   \<and> detect_node_npm unreadable_manifest_repo
   \<and> build_context unreadable_manifest_repo ''node-npm'' = Inl OSError
   \<and> detect_stack unreadable_manifest_repo = Inl OSError"
  by (simp add: unreadable_manifest_repo_def detect_stack_def is_dir_def
      STACK_PRIORITY_def detect_docker_def has_file_def rglob_def dir_only_def component_def
      detect_node_bun_def detect_node_pnpm_def detect_node_yarn_def detect_node_npm_def
      file_exists_def file_contains_def is_file_def joinpath_def build_context_def Let_def
      read_text_def)

text \<open>
  \<^bold>\<open>C9.\<close> For a repository holding exactly \<^verbatim>\<open>.env\<close>, \<^verbatim>\<open>.env.local\<close> and
  \<^verbatim>\<open>.env.example\<close>, the danger list is \<^verbatim>\<open>.env\<close> and \<^verbatim>\<open>.env.local\<close> and the
  example list is \<^verbatim>\<open>.env.example\<close>. The example list is as claimed; the danger list
  of the code holds \<^verbatim>\<open>.env\<close> only, because \<^verbatim>\<open>[!example]\<close> is a set of characters
  and the last letter of \<^verbatim>\<open>.env.local\<close> belongs to it
  (\<open>local_env_not_dangerous\<close>).
\<close>

theorem env_local_missing_from_danger:
  "map (\<lambda>f. name (snd f)) (danger (find_env_files env_repo)) = [''.env'']
   \<and> map (\<lambda>f. name (snd f)) (example (find_env_files env_repo)) = [''.env.example'']"
  by (simp add: find_env_files_def Let_def danger_patterns_def example_patterns_def
      env_repo_def rglob_def dir_only_def component_def class_end_def)

text \<open>
  \<^bold>\<open>C10.\<close> For every repository on which \<^verbatim>\<open>detect_stack\<close> returns the stack
  \<^verbatim>\<open>unknown\<close>, the Docker flag of the returned context is \<open>False\<close>.
\<close>

theorem unknown_has_no_docker:
  assumes "detect_stack repo = Inr r" and "stack r = ''unknown''"
  shows "\<not> has_docker (context r)"
proof (cases "first_match STACK_PRIORITY repo")
  case None
  then have "\<forall>(s, t, d) \<in> set STACK_PRIORITY. \<not> d repo"
    by (simp add: first_match_None)
  then have "\<not> detect_docker repo"
    by (auto simp: STACK_PRIORITY_def)
  with None assms(1) show ?thesis
    by (auto simp: detect_stack_def split: if_splits)
next
  case (Some res)
  with assms(1) have "first_match STACK_PRIORITY repo = Some (Inr r)"
    by (auto simp: detect_stack_def split: if_splits)
  then obtain d where "(stack r, template r, d) \<in> set STACK_PRIORITY"
    by (blast dest: first_match_Inr)
  then have "stack r \<noteq> ''unknown''" by (rule stack_names)
  with assms(2) show ?thesis by simp
qed

theorem unknown_has_no_docker_witness:
  "detect_stack empty_repo = Inr empty_resolution \<and> stack empty_resolution = ''unknown''
   \<and> \<not> has_docker (context empty_resolution)"
proof -
  have s: "stack empty_resolution = ''unknown''" by (simp add: empty_resolution_def)
  from unknown_has_no_docker [OF empty_repo_resolution s] empty_repo_resolution s
  show ?thesis by simp
qed

end
